theory Spec2Isabelle
  imports Main "HOL-Library.Sublist" "HOL-Library.Word"
begin

section \<open>Python values and exceptions\<close>

text \<open>
  The values that \<^verbatim>\<open>json.loads\<close> and \<^verbatim>\<open>response.json()\<close> hand to the module are
  Python objects of seven kinds: \<^verbatim>\<open>None\<close>, \<^verbatim>\<open>bool\<close>, \<^verbatim>\<open>int\<close>, \<^verbatim>\<open>float\<close>, \<^verbatim>\<open>str\<close>,
  \<^verbatim>\<open>list\<close> and \<^verbatim>\<open>dict\<close> with \<^verbatim>\<open>str\<close> keys.  \<open>JNull\<close> is Python's \<^verbatim>\<open>None\<close>, which
  is also what \<^verbatim>\<open>dict.get\<close> returns for a missing key.  A \<^verbatim>\<open>str\<close> is a \<open>string\<close>, one
  \<open>char\<close> for each character of the \<^verbatim>\<open>str\<close>.  A \<^verbatim>\<open>float\<close> is kept as the 64 bits of
  its IEEE double; the module never computes with one.  A \<^verbatim>\<open>dict\<close> is an association
  list read with \<open>map_of\<close>.
\<close>

datatype json =
    JNull
  | JBool bool
  | JInt int
  | JFloat "64 word"
  | JStr string
  | JArr "json list"
  | JObj "(string \<times> json) list"

text \<open>
  The exceptions that reach the caller.  \<open>MarkerNotFound\<close> and \<open>InvalidData\<close> are the two
  classes of \<^verbatim>\<open>accuradiolibexceptions\<close>, each carrying its message;
  \<open>ValueError\<close>, \<open>AttributeError\<close> and \<open>TypeError\<close> are the built-in ones the
  interpreter raises; \<open>OtherError\<close> stands for whatever else a collaborator
  (\<^verbatim>\<open>requests\<close>, \<^verbatim>\<open>json\<close>) raises.
\<close>

datatype error =
    MarkerNotFound string
  | InvalidData string
  | ValueError
  | AttributeError
  | TypeError
  | OtherError string

text \<open>\<^verbatim>\<open>obj.get(key, default)\<close>: only a \<^verbatim>\<open>dict\<close> has the method.\<close>

definition dict_get :: "(string \<times> json) list \<Rightarrow> string \<Rightarrow> json \<Rightarrow> json" where
  "dict_get d k dflt = (case map_of d k of Some v \<Rightarrow> v | None \<Rightarrow> dflt)"

definition py_get :: "json \<Rightarrow> string \<Rightarrow> json \<Rightarrow> error + json" where
  "py_get obj k dflt =
     (case obj of JObj d \<Rightarrow> Inr (dict_get d k dflt) | _ \<Rightarrow> Inl AttributeError)"

text \<open>
  \<^verbatim>\<open>for x in obj\<close>: a list gives its items, a dict its keys, a str its characters;
  \<^verbatim>\<open>None\<close>, booleans and numbers are not iterable.
\<close>

definition py_iter :: "json \<Rightarrow> error + json list" where
  "py_iter obj =
     (case obj of
        JArr xs \<Rightarrow> Inr xs
      | JObj d \<Rightarrow> Inr (map JStr (remdups (map fst d)))
      | JStr s \<Rightarrow> Inr (map (\<lambda>c. JStr [c]) s)
      | _ \<Rightarrow> Inl TypeError)"

text \<open>
  A replacement field of an f-string: a \<^verbatim>\<open>str\<close> is inserted as it is; for any other
  object the built-in \<^verbatim>\<open>format\<close> decides, which is the parameter \<open>fmt\<close>.
\<close>

definition py_format :: "(json \<Rightarrow> string) \<Rightarrow> json \<Rightarrow> string" where
  "py_format fmt v = (case v of JStr s \<Rightarrow> s | _ \<Rightarrow> fmt v)"

subsection \<open>\<^verbatim>\<open>str.find\<close> and slicing\<close>

text \<open>
  \<open>find_first sub s\<close> is the lowest index at which \<open>sub\<close> occurs in \<open>s\<close>.
  \<open>str_find text sub start\<close> is \<^verbatim>\<open>text.find(sub, start)\<close> for \<open>start \<ge> 0\<close>: the lowest
  index \<open>\<ge> start\<close> of an occurrence, or \<open>-1\<close>.
\<close>

fun find_first :: "string \<Rightarrow> string \<Rightarrow> nat option" where
  "find_first sub [] = (if sub = [] then Some 0 else None)"
| "find_first sub (c # cs) =
     (if prefix sub (c # cs) then Some 0 else map_option Suc (find_first sub cs))"

definition str_find :: "string \<Rightarrow> string \<Rightarrow> nat \<Rightarrow> int" where
  "str_find text sub start =
     (if length text < start then - 1
      else case find_first sub (drop start text) of
             None \<Rightarrow> - 1
           | Some i \<Rightarrow> int (start + i))"

text \<open>\<^verbatim>\<open>text[start:end]\<close> for indices that are not negative.\<close>

definition slice :: "string \<Rightarrow> nat \<Rightarrow> nat \<Rightarrow> string" where
  "slice text start end = take (end - start) (drop start text)"

section \<open>Effects: requests, log records, generators\<close>

text \<open>
  The module talks to the outside through \<^verbatim>\<open>requests.get\<close> and the logger, and its
  properties \<^verbatim>\<open>_brands\<close> and \<^verbatim>\<open>channels\<close> are generators, which run only as far as
  their consumer pulls.  A piece of code is therefore a tree of type \<open>('y, 'r) prog\<close>:
  it returns a value, raises, yields an item and goes on when asked for the next one,
  issues a GET and goes on with what came back, or emits a log record and goes on.
  A generator is a \<open>('y, unit) prog\<close>; code that is not a generator never yields.

  Of a response the module reads \<^verbatim>\<open>response.text\<close> and calls \<^verbatim>\<open>response.json()\<close>,
  which decodes the body or raises.
\<close>

record response =
  resp_text :: string
  resp_json :: "error + json"

datatype log_record = LogError string

datatype ('y, 'r) prog =
    Return 'r
  | Raise error
  | Yield 'y "('y, 'r) prog"
  | Request string "error + response \<Rightarrow> ('y, 'r) prog"
  | Log log_record "('y, 'r) prog"

text \<open>Sequencing: the rest \<open>f\<close> of the code runs on the value returned.\<close>

primrec bind :: "('y, 'a) prog \<Rightarrow> ('a \<Rightarrow> ('y, 'b) prog) \<Rightarrow> ('y, 'b) prog" where
  "bind (Return r) f = f r"
| "bind (Raise e) f = Raise e"
| "bind (Yield y p) f = Yield y (bind p f)"
| "bind (Request u k) f = Request u (\<lambda>x. bind (k x) f)"
| "bind (Log l p) f = Log l (bind p f)"

text \<open>An expression that evaluates to a value or raises.\<close>

definition lift :: "error + 'a \<Rightarrow> ('y, 'a) prog" where
  "lift r = (case r of Inl e \<Rightarrow> Raise e | Inr v \<Rightarrow> Return v)"

text \<open>\<^verbatim>\<open>for x in xs: body\<close> over the items of a list object.\<close>

primrec for_list :: "'a list \<Rightarrow> ('a \<Rightarrow> ('y, unit) prog) \<Rightarrow> ('y, unit) prog" where
  "for_list [] body = Return ()"
| "for_list (x # xs) body = bind (body x) (\<lambda>_. for_list xs body)"

text \<open>
  \<^verbatim>\<open>for x in gen: body\<close> over a generator: the generator is resumed only after the
  body has run on the item before.
\<close>

primrec for_each :: "('x, unit) prog \<Rightarrow> ('x \<Rightarrow> ('y, unit) prog) \<Rightarrow> ('y, unit) prog" where
  "for_each (Return r) body = Return ()"
| "for_each (Raise e) body = Raise e"
| "for_each (Yield x g) body = bind (body x) (\<lambda>_. for_each g body)"
| "for_each (Request u k) body = Request u (\<lambda>r. for_each (k r) body)"
| "for_each (Log l g) body = Log l (for_each g body)"

text \<open>
  \<^verbatim>\<open>next(gen, None)\<close>: run the generator to its first item and leave it there;
  \<^verbatim>\<open>None\<close> when it is exhausted first.
\<close>

primrec next_default :: "('x, unit) prog \<Rightarrow> ('y, 'x option) prog" where
  "next_default (Return r) = Return None"
| "next_default (Raise e) = Raise e"
| "next_default (Yield x g) = Return (Some x)"
| "next_default (Request u k) = Request u (\<lambda>r. next_default (k r))"
| "next_default (Log l g) = Log l (next_default g)"

text \<open>
  Running a tree against the outside.  The \<open>network\<close> answers a GET of a URL, given
  the URLs requested before it, with a response or with the exception
  \<^verbatim>\<open>requests.get\<close> raises.  The \<open>world\<close> records the requests issued and the log
  records emitted, in order.  \<open>exec\<close> drives the code to its end: the items yielded,
  the world afterwards, and the value returned or the exception raised.
\<close>

type_synonym network = "string list \<Rightarrow> string \<Rightarrow> error + response"

record world =
  requests :: "string list"
  logged :: "log_record list"

primrec exec :: "network \<Rightarrow> ('y, 'r) prog \<Rightarrow> world \<Rightarrow> 'y list \<times> world \<times> (error + 'r)" where
  "exec net (Return r) w = ([], w, Inr r)"
| "exec net (Raise e) w = ([], w, Inl e)"
| "exec net (Yield y p) w = (case exec net p w of (ys, w', r) \<Rightarrow> (y # ys, w', r))"
| "exec net (Request u k) w =
     exec net (k (net (requests w) u)) (w\<lparr>requests := requests w @ [u]\<rparr>)"
| "exec net (Log l p) w = exec net p (w\<lparr>logged := logged w @ [l]\<rparr>)"

section \<open>The module\<close>

subsection \<open>\<^verbatim>\<open>Brand\<close>\<close>

text \<open>
  The dataclass has five fields without defaults and checks no types, so a field
  holds whatever value the entry has.  \<open>Brand_init kw\<close> is \<^verbatim>\<open>Brand(**kw)\<close>: a keyword
  that is not a field, or a field without a keyword, is a \<^verbatim>\<open>TypeError\<close>.
  \<open>Brand_from brand\<close> is \<^verbatim>\<open>Brand(**brand)\<close> for any object; only a mapping can be
  unpacked.
\<close>

record Brand =
  Brand_channels :: json
  Brand_id :: json
  Brand_canonical_url :: json
  Brand_param :: json
  Brand_name :: json

definition Brand_fields :: "string list" where
  "Brand_fields = [''channels'', ''_id'', ''canonical_url'', ''param'', ''name'']"

definition Brand_init :: "(string \<times> json) list \<Rightarrow> error + Brand" where
  "Brand_init kw =
     (if list_ex (\<lambda>k. k \<notin> set Brand_fields) (map fst kw) then Inl TypeError
      else case (map_of kw ''channels'', map_of kw ''_id'', map_of kw ''canonical_url'',
                 map_of kw ''param'', map_of kw ''name'') of
             (Some c, Some i, Some u, Some p, Some n) \<Rightarrow>
               Inr \<lparr>Brand_channels = c, Brand_id = i, Brand_canonical_url = u,
                    Brand_param = p, Brand_name = n\<rparr>
           | _ \<Rightarrow> Inl TypeError)"

definition Brand_from :: "json \<Rightarrow> error + Brand" where
  "Brand_from brand = (case brand of JObj kw \<Rightarrow> Brand_init kw | _ \<Rightarrow> Inl TypeError)"

text \<open>\<^verbatim>\<open>Brand.oid\<close>: \<^verbatim>\<open>self._id.get('$oid')\<close>.\<close>

definition Brand_oid :: "Brand \<Rightarrow> error + json" where
  "Brand_oid b = py_get (Brand_id b) ''$oid'' JNull"

subsection \<open>\<^verbatim>\<open>Service\<close> and \<^verbatim>\<open>Channel\<close>\<close>

record Service =
  url :: string

definition Service_init :: Service where
  "Service_init = \<lparr>url = ''https://www.accuradio.com''\<rparr>"

record Channel =
  service :: Service
  data :: json

definition start_marker :: string where
  "start_marker = ''__PRELOADED_STATE__ =''"

definition end_marker :: string where
  "end_marker = ''}</script>''"

text \<open>
  \<^verbatim>\<open>Service._parse_configuration_from_source\<close>.  \<open>loads\<close> is \<^verbatim>\<open>json.loads\<close>, a parameter:
  it decodes or raises, and the \<^verbatim>\<open>except\<close> clause catches \<^verbatim>\<open>ValueError\<close> only.
\<close>

definition parse_configuration_from_source ::
    "(string \<Rightarrow> error + json) \<Rightarrow> string \<Rightarrow> ('y, json) prog" where
  "parse_configuration_from_source loads text =
     (let start = str_find text start_marker 0 in
      if start = - 1 then
        Raise (MarkerNotFound
          (''Could not find starting marker '' @ start_marker @ '' in text: '' @ text))
      else
        let start = nat start + length start_marker;
            end = str_find text end_marker start in
        if end = - 1 then
          Raise (MarkerNotFound
            (''Could not find end marker '' @ end_marker @ '' in text: '' @ text))
        else
          let data = slice text start (nat end) @ ''}'' in
          case loads data of
            Inr v \<Rightarrow> Return v
          | Inl ValueError \<Rightarrow>
              Log (LogError ''Unable to parse data as json.'') (Raise (InvalidData data))
          | Inl e \<Rightarrow> Raise e)"

text \<open>\<^verbatim>\<open>Service._data\<close>.\<close>

definition Service_data :: "(string \<Rightarrow> error + json) \<Rightarrow> Service \<Rightarrow> ('y, json) prog" where
  "Service_data loads self =
     Request (url self) (\<lambda>r.
       case r of
         Inl e \<Rightarrow> Raise e
       | Inr response \<Rightarrow> parse_configuration_from_source loads (resp_text response))"

text \<open>
  \<^verbatim>\<open>Service._brands\<close>.  \<open>brands_of_data\<close> is the loop once \<^verbatim>\<open>self._data\<close> has been
  evaluated.
\<close>

definition brands_of_data :: "json \<Rightarrow> (Brand, unit) prog" where
  "brands_of_data d =
     bind (lift (py_get d ''content'' JNull)) (\<lambda>content.
     bind (lift (py_get content ''genres'' (JObj []))) (\<lambda>genres.
     bind (lift (py_get genres ''brands'' JNull)) (\<lambda>brands.
     bind (lift (py_iter brands)) (\<lambda>entries.
       for_list entries (\<lambda>brand.
         bind (lift (Brand_from brand)) (\<lambda>b. Yield b (Return ())))))))"

definition Service_brands :: "(string \<Rightarrow> error + json) \<Rightarrow> Service \<Rightarrow> (Brand, unit) prog" where
  "Service_brands loads self = bind (Service_data loads self) brands_of_data"

text \<open>
  \<^verbatim>\<open>Service.channels\<close>.  \<open>genre_url\<close> is the URL of line 110 and \<open>channels_of_brand\<close>
  the body of the loop over the brands.
\<close>

definition genre_url :: "(json \<Rightarrow> string) \<Rightarrow> Service \<Rightarrow> Brand \<Rightarrow> string" where
  "genre_url fmt self brand =
     url self @ ''/c/m/json/genre/?param='' @ py_format fmt (Brand_param brand)"

definition channels_of_brand ::
    "(json \<Rightarrow> string) \<Rightarrow> Service \<Rightarrow> Brand \<Rightarrow> (Channel, unit) prog" where
  "channels_of_brand fmt self brand =
     Request (genre_url fmt self brand) (\<lambda>r.
       case r of
         Inl e \<Rightarrow> Raise e
       | Inr response \<Rightarrow>
           bind (lift (resp_json response)) (\<lambda>body.
           bind (lift (py_get body ''channels'' JNull)) (\<lambda>chans.
           bind (lift (py_iter chans)) (\<lambda>entries.
             for_list entries (\<lambda>channel.
               Yield \<lparr>service = self, data = channel\<rparr> (Return ()))))))"

definition Service_channels ::
    "(string \<Rightarrow> error + json) \<Rightarrow> (json \<Rightarrow> string) \<Rightarrow> Service \<Rightarrow> (Channel, unit) prog" where
  "Service_channels loads fmt self =
     for_each (Service_brands loads self) (channels_of_brand fmt self)"

text \<open>
  The accessors of \<^verbatim>\<open>Channel\<close>: \<^verbatim>\<open>id\<close>, \<^verbatim>\<open>name\<close>, \<^verbatim>\<open>description\<close> and \<^verbatim>\<open>logo\<close>.
\<close>

definition Channel_id :: "Channel \<Rightarrow> error + json" where
  "Channel_id self =
     (case py_get (data self) ''_id'' (JObj []) of
        Inl e \<Rightarrow> Inl e
      | Inr i \<Rightarrow> py_get i ''$oid'' JNull)"

definition Channel_name :: "Channel \<Rightarrow> error + json" where
  "Channel_name self = py_get (data self) ''name'' JNull"

definition Channel_description :: "Channel \<Rightarrow> error + json" where
  "Channel_description self = py_get (data self) ''description'' JNull"

definition Channel_logo :: "Channel \<Rightarrow> json" where
  "Channel_logo self = JNull"

text \<open>
  \<^verbatim>\<open>Service.get_channel_by_id\<close>.  The identifier handed in is any object, of type
  \<open>'k\<close>.  \<open>eq v k\<close> is \<^verbatim>\<open>v == k\<close> for the id \<open>v\<close> of a channel and the object \<open>k\<close>: the
  comparison is Python's own, a parameter.  The generator expression yields the
  channels that pass the test, and \<^verbatim>\<open>next\<close> stops at the first.
\<close>

definition get_channel_by_id ::
    "(string \<Rightarrow> error + json) \<Rightarrow> (json \<Rightarrow> string) \<Rightarrow> (json \<Rightarrow> 'k \<Rightarrow> bool) \<Rightarrow> Service \<Rightarrow> 'k
       \<Rightarrow> ('y, Channel option) prog" where
  "get_channel_by_id loads fmt eq self channel_id =
     next_default
       (for_each (Service_channels loads fmt self) (\<lambda>channel.
          bind (lift (Channel_id channel)) (\<lambda>i.
            if eq i channel_id then Yield channel (Return ()) else Return ())))"

text \<open>
  The comparison when the identifier is a \<^verbatim>\<open>str\<close>: \<^verbatim>\<open>==\<close> between a decoded value and
  a \<^verbatim>\<open>str\<close> holds exactly when the value is a \<^verbatim>\<open>str\<close> of the same characters.
\<close>

definition str_eq :: "json \<Rightarrow> string \<Rightarrow> bool" where
  "str_eq v k = (v = JStr k)"

section \<open>Example inputs\<close>

text \<open>
  The inputs of the worked examples: a root page whose embedded state lists brands
  that differ in their parameter only, and a genre listing with one channel.
  \<open>example_loads\<close> decodes the two state texts below as \<^verbatim>\<open>json.loads\<close> does and
  raises on any other text.  \<open>example_network\<close> serves the given root page, answers
  the genre request for \<open>p\<close> with the listing and the one for \<open>q\<close> with an empty object.
\<close>

definition example_brand :: "string \<Rightarrow> json" where
  "example_brand p =
     JObj [(''channels'', JInt 5), (''_id'', JObj [(''$oid'', JStr ''abc'')]),
           (''canonical_url'', JStr ''u''), (''param'', JStr p), (''name'', JStr ''n'')]"

definition example_state :: "json list \<Rightarrow> json" where
  "example_state brands =
     JObj [(''content'', JObj [(''genres'', JObj [(''brands'', JArr brands)])])]"

definition example_text_one :: string where
  \<open>example_text_one =
     ''{"content": {"genres": {"brands": [{"channels": 5, "_id": {"$oid": "abc"}, ''
     @ ''"canonical_url": "u", "param": "p", "name": "n"}]}}}''\<close>

definition example_text_two :: string where
  \<open>example_text_two =
     ''{"content": {"genres": {"brands": [{"channels": 5, "_id": {"$oid": "abc"}, ''
     @ ''"canonical_url": "u", "param": "p", "name": "n"}, {"channels": 5, ''
     @ ''"_id": {"$oid": "abc"}, "canonical_url": "u", "param": "q", "name": "n"}]}}}''\<close>

definition example_page :: "string \<Rightarrow> string" where
  "example_page state_text =
     ''<html><script>window.__PRELOADED_STATE__ = '' @ state_text @ ''</script></html>''"

definition example_loads :: "string \<Rightarrow> error + json" where
  "example_loads s =
     (if s = '' '' @ example_text_one then Inr (example_state [example_brand ''p''])
      else if s = '' '' @ example_text_two
        then Inr (example_state [example_brand ''p'', example_brand ''q''])
      else Inl ValueError)"

definition example_channel :: json where
  "example_channel =
     JObj [(''_id'', JObj [(''$oid'', JStr ''1'')]), (''name'', JStr ''A''),
           (''description'', JStr ''d'')]"

definition example_listing :: string where
  \<open>example_listing =
     ''{"channels": [{"_id": {"$oid": "1"}, "name": "A", "description": "d"}]}''\<close>

definition example_network :: "string \<Rightarrow> network" where
  "example_network page = (\<lambda>h u.
     if u = ''https://www.accuradio.com''
       then Inr \<lparr>resp_text = page, resp_json = Inl ValueError\<rparr>
     else if u = ''https://www.accuradio.com/c/m/json/genre/?param=p''
       then Inr \<lparr>resp_text = example_listing,
                 resp_json = Inr (JObj [(''channels'', JArr [example_channel])])\<rparr>
     else if u = ''https://www.accuradio.com/c/m/json/genre/?param=q''
       then Inr \<lparr>resp_text = ''{}'', resp_json = Inr (JObj [])\<rparr>
     else Inl (OtherError ''ConnectionError''))"

text \<open>
  A network whose genre listing for \<open>p\<close> is given: its text and what
  \<^verbatim>\<open>response.json()\<close> decodes it to.  The first listing below has three channels, of
  which the second and the third have the id \<open>1\<close>; in the second listing the first
  entry has a \<^verbatim>\<open>str\<close> as its \<^verbatim>\<open>_id\<close>.
\<close>

definition example_network_with :: "string \<Rightarrow> string \<Rightarrow> json \<Rightarrow> network" where
  "example_network_with page listing_text listing = (\<lambda>h u.
     if u = ''https://www.accuradio.com''
       then Inr \<lparr>resp_text = page, resp_json = Inl ValueError\<rparr>
     else if u = ''https://www.accuradio.com/c/m/json/genre/?param=p''
       then Inr \<lparr>resp_text = listing_text, resp_json = Inr listing\<rparr>
     else Inl (OtherError ''ConnectionError''))"

definition example_channel_named :: "string \<Rightarrow> string \<Rightarrow> json" where
  "example_channel_named oid n =
     JObj [(''_id'', JObj [(''$oid'', JStr oid)]), (''name'', JStr n)]"

definition example_listing_three_text :: string where
  \<open>example_listing_three_text =
     ''{"channels": [{"_id": {"$oid": "0"}, "name": "Z"}, ''
     @ ''{"_id": {"$oid": "1"}, "name": "A"}, {"_id": {"$oid": "1"}, "name": "B"}]}''\<close>

definition example_listing_three :: json where
  "example_listing_three =
     JObj [(''channels'', JArr [example_channel_named ''0'' ''Z'',
       example_channel_named ''1'' ''A'', example_channel_named ''1'' ''B''])]"

definition example_listing_str_id_text :: string where
  \<open>example_listing_str_id_text =
     ''{"channels": [{"_id": "x"}, {"_id": {"$oid": "1"}, "name": "A"}]}''\<close>

definition example_listing_str_id :: json where
  "example_listing_str_id =
     JObj [(''channels'', JArr [JObj [(''_id'', JStr ''x'')],
       example_channel_named ''1'' ''A''])]"

text \<open>
  A decoder that, like \<^verbatim>\<open>json.loads\<close>, gives up with \<^verbatim>\<open>RecursionError\<close> on a text that
  opens 100000 nested arrays, and is \<open>example_loads\<close> on any other text.
\<close>

definition example_deep_loads :: "string \<Rightarrow> error + json" where
  "example_deep_loads s =
     (if 100000 \<le> length (takeWhile (\<lambda>c. c = CHR ''['') s)
        then Inl (OtherError ''RecursionError'')
      else example_loads s)"

text \<open>A stand-in for the built-in \<^verbatim>\<open>format\<close> of an object that is not a \<^verbatim>\<open>str\<close>.\<close>

definition example_fmt :: "json \<Rightarrow> string" where
  "example_fmt v = ''None''"

definition example_Brand :: "string \<Rightarrow> Brand" where
  "example_Brand p =
     \<lparr>Brand_channels = JInt 5, Brand_id = JObj [(''$oid'', JStr ''abc'')],
      Brand_canonical_url = JStr ''u'', Brand_param = JStr p, Brand_name = JStr ''n''\<rparr>"

definition example_Channel :: Channel where
  "example_Channel = \<lparr>service = Service_init, data = example_channel\<rparr>"

section \<open>Searching and slicing\<close>

lemma find_first_None: "\<not> sublist sub s \<Longrightarrow> find_first sub s = None"
proof (induction s)
  case Nil
  then show ?case by (cases sub) auto
next
  case (Cons c cs)
  then show ?case by (simp add: sublist_Cons_right)
qed

lemma prefix_shorter:
  assumes "prefix sub (xs @ sub @ post)" "xs \<noteq> []"
  shows "prefix sub (xs @ butlast sub)"
proof -
  have "length sub \<le> length (xs @ butlast sub)"
    using assms(2) by (cases xs) auto
  moreover have "prefix (xs @ butlast sub) (xs @ sub @ post)"
    by (simp add: prefixeq_butlast)
  ultimately show ?thesis
    using assms(1) by (meson prefix_length_prefix)
qed

text \<open>
  An occurrence of \<open>sub\<close> right after \<open>pre\<close> is the first one when \<open>sub\<close> does not occur
  in \<open>pre\<close> followed by all but the last character of \<open>sub\<close>.
\<close>

lemma find_first_Some:
  "sub \<noteq> [] \<Longrightarrow> \<not> sublist sub (pre @ butlast sub) \<Longrightarrow>
     find_first sub (pre @ sub @ post) = Some (length pre)"
proof (induction pre)
  case Nil
  then show ?case by (cases sub) auto
next
  case (Cons p ps)
  have np: "\<not> prefix sub ((p # ps) @ sub @ post)"
    using prefix_shorter [of sub "p # ps" post] Cons.prems(2) by auto
  have "\<not> sublist sub (ps @ butlast sub)"
    using Cons.prems(2) by (simp add: sublist_Cons_right)
  with Cons.IH Cons.prems(1) have "find_first sub (ps @ sub @ post) = Some (length ps)"
    by simp
  with np show ?case by simp
qed

lemma str_find_absent: "\<not> sublist sub text \<Longrightarrow> str_find text sub 0 = - 1"
  by (simp add: str_find_def find_first_None)

lemma str_find_first:
  "sub \<noteq> [] \<Longrightarrow> \<not> sublist sub (mid @ butlast sub) \<Longrightarrow>
     str_find (pre @ mid @ sub @ post) sub (length pre) = int (length pre + length mid)"
  by (simp add: str_find_def find_first_Some)

lemma str_find_absent_from:
  "\<not> sublist sub rest \<Longrightarrow> str_find (pre @ rest) sub (length pre) = - 1"
  by (simp add: str_find_def find_first_None)

lemma start_marker_nonempty: "start_marker \<noteq> []"
  by (simp add: start_marker_def)

lemma end_marker_nonempty: "end_marker \<noteq> []"
  by (simp add: end_marker_def)

lemma slice_between: "slice (pre @ mid @ post) (length pre) (length pre + length mid) = mid"
  by (simp add: slice_def)

section \<open>The extractor\<close>

text \<open>
  When both markers are located, the extractor hands the text between them, with one
  closing brace appended, to \<open>loads\<close> and does nothing else.
\<close>

lemma parse_located:
  assumes "\<not> sublist start_marker (pre @ butlast start_marker)"
    and "\<not> sublist end_marker (content @ butlast end_marker)"
  shows "parse_configuration_from_source loads (pre @ start_marker @ content @ end_marker @ post) =
     (case loads (content @ ''}'') of
        Inr v \<Rightarrow> Return v
      | Inl ValueError \<Rightarrow>
          Log (LogError ''Unable to parse data as json.'')
            (Raise (InvalidData (content @ ''}'')))
      | Inl e \<Rightarrow> Raise e)"
proof -
  let ?text = "pre @ start_marker @ content @ end_marker @ post"
  have s: "str_find ?text start_marker 0 = int (length pre)"
    using str_find_first [of start_marker pre "[]" "content @ end_marker @ post"]
      assms(1) start_marker_nonempty by simp
  have e: "str_find ?text end_marker (length pre + length start_marker)
             = int (length pre + length start_marker + length content)"
    using str_find_first [of end_marker content "pre @ start_marker" post]
      assms(2) end_marker_nonempty by simp
  have d: "slice ?text (length pre + length start_marker)
             (length pre + length start_marker + length content) = content"
    using slice_between [of "pre @ start_marker" content "end_marker @ post"] by simp
  show ?thesis
    unfolding parse_configuration_from_source_def Let_def
    by (simp only: s e d nat_int of_nat_eq_iff) simp
qed

text \<open>
  C1.  Let the text be \<open>pre\<close>, the start marker, \<open>content\<close>, the end marker and \<open>post\<close>,
  where this is the first occurrence of the start marker and the first occurrence of
  the end marker after it.  If \<^verbatim>\<open>json.loads\<close> decodes \<open>content\<close> followed by one
  closing brace to \<open>v\<close>, the extractor returns \<open>v\<close>.
\<close>

theorem extractor_returns_decoded_content:
  assumes "text = pre @ start_marker @ content @ end_marker @ post"
    and "\<not> sublist start_marker (pre @ butlast start_marker)"
    and "\<not> sublist end_marker (content @ butlast end_marker)"
    and "loads (content @ ''}'') = Inr v"
  shows "parse_configuration_from_source loads text = Return v"
  using parse_located [OF assms(2,3), of loads post] assms(1,4) by simp

theorem extractor_returns_decoded_content_witness:
  "\<not> sublist start_marker (''<script>window.'' @ butlast start_marker)
   \<and> \<not> sublist end_marker ('' {'' @ butlast end_marker)
   \<and> parse_configuration_from_source
        (\<lambda>s. if s = '' {}'' then Inr (JObj []) else Inl ValueError)
        ''<script>window.__PRELOADED_STATE__ = {}</script></html>''
       = (Return (JObj []) :: (unit, json) prog)"
proof -
  let ?loads = "\<lambda>s. if s = '' {}'' then Inr (JObj []) else Inl ValueError"
  have t: "''<script>window.__PRELOADED_STATE__ = {}</script></html>''
             = ''<script>window.'' @ start_marker @ '' {'' @ end_marker @ ''</html>''"
    by (simp add: start_marker_def end_marker_def)
  have a: "\<not> sublist start_marker (''<script>window.'' @ butlast start_marker)"
    by (simp add: start_marker_def sublist_Cons_right)
  have b: "\<not> sublist end_marker ('' {'' @ butlast end_marker)"
    by (simp add: end_marker_def sublist_Cons_right)
  have c: "?loads ('' {'' @ ''}'') = Inr (JObj [])"
    by simp
  show ?thesis
    using a b extractor_returns_decoded_content [where loads = ?loads, OF t a b c]
    by (intro conjI)
qed

text \<open>
  C2.  When the start marker does not occur in the text, the extractor raises
  \<open>MarkerNotFound\<close> with a message that names the start marker and ends with the
  text.  When the start marker occurs, first after \<open>pre\<close>, and the end marker does
  not occur in the \<open>rest\<close> after it, the extractor raises \<open>MarkerNotFound\<close> with a
  message that names the end marker and ends with the text.
\<close>

theorem extractor_marker_not_found:
  "(\<not> sublist start_marker text \<longrightarrow>
      parse_configuration_from_source loads text =
        Raise (MarkerNotFound
          (''Could not find starting marker __PRELOADED_STATE__ = in text: '' @ text)))
   \<and> (text = pre @ start_marker @ rest
        \<and> \<not> sublist start_marker (pre @ butlast start_marker)
        \<and> \<not> sublist end_marker rest \<longrightarrow>
      parse_configuration_from_source loads text =
        Raise (MarkerNotFound
          (''Could not find end marker }</script> in text: '' @ text)))"
proof (intro conjI impI)
  assume "\<not> sublist start_marker text"
  then have "str_find text start_marker 0 = - 1"
    by (rule str_find_absent)
  then show "parse_configuration_from_source loads text =
        Raise (MarkerNotFound
          (''Could not find starting marker __PRELOADED_STATE__ = in text: '' @ text))"
    by (simp add: parse_configuration_from_source_def start_marker_def)
next
  assume a: "text = pre @ start_marker @ rest
        \<and> \<not> sublist start_marker (pre @ butlast start_marker)
        \<and> \<not> sublist end_marker rest"
  have s: "str_find text start_marker 0 = int (length pre)"
    using str_find_first [of start_marker pre "[]" rest] a start_marker_nonempty by simp
  have e: "str_find text end_marker (length pre + length start_marker) = - 1"
    using str_find_absent_from [of end_marker rest "pre @ start_marker"] a by simp
  show "parse_configuration_from_source loads text =
        Raise (MarkerNotFound
          (''Could not find end marker }</script> in text: '' @ text))"
    unfolding parse_configuration_from_source_def Let_def
    by (simp only: s e nat_int) (simp add: end_marker_def)
qed

theorem extractor_marker_not_found_witness:
  "\<not> sublist start_marker ''<html>{}</script>''
   \<and> parse_configuration_from_source (\<lambda>s. Inl ValueError) ''<html>{}</script>'' =
        (Raise (MarkerNotFound
          (''Could not find starting marker __PRELOADED_STATE__ = in text: ''
             @ ''<html>{}</script>'')) :: (unit, json) prog)
   \<and> \<not> sublist start_marker (''}</script>'' @ butlast start_marker)
   \<and> \<not> sublist end_marker '' {} </script>''
   \<and> parse_configuration_from_source (\<lambda>s. Inl ValueError) ''}</script>__PRELOADED_STATE__ = {} </script>'' =
        (Raise (MarkerNotFound
          (''Could not find end marker }</script> in text: ''
             @ ''}</script>__PRELOADED_STATE__ = {} </script>'')) :: (unit, json) prog)"
proof -
  have a: "\<not> sublist start_marker ''<html>{}</script>''"
    by (simp add: start_marker_def sublist_Cons_right)
  have t: "''}</script>__PRELOADED_STATE__ = {} </script>''
             = ''}</script>'' @ start_marker @ '' {} </script>''"
    by (simp add: start_marker_def)
  have b: "\<not> sublist start_marker (''}</script>'' @ butlast start_marker)"
    by (simp add: start_marker_def sublist_Cons_right)
  have c: "\<not> sublist end_marker '' {} </script>''"
    by (simp add: end_marker_def sublist_Cons_right)
  show ?thesis
    using a b c t
      extractor_marker_not_found [of "''<html>{}</script>''" "\<lambda>s. Inl ValueError", THEN conjunct1]
      extractor_marker_not_found [of "''}</script>__PRELOADED_STATE__ = {} </script>''"
        "\<lambda>s. Inl ValueError"
        "''}</script>''" "'' {} </script>''", THEN conjunct2]
    by (intro conjI) blast+
qed

text \<open>
  C3, as amended.  With both markers located as in C1, if \<^verbatim>\<open>json.loads\<close> raises
  \<^verbatim>\<open>ValueError\<close> on \<open>content\<close> followed by one closing brace, the extractor emits the
  log record and then raises \<open>InvalidData\<close> carrying that repaired slice.
\<close>

theorem extractor_invalid_data:
  assumes "text = pre @ start_marker @ content @ end_marker @ post"
    and "\<not> sublist start_marker (pre @ butlast start_marker)"
    and "\<not> sublist end_marker (content @ butlast end_marker)"
    and "loads (content @ ''}'') = Inl ValueError"
  shows "parse_configuration_from_source loads text =
           Log (LogError ''Unable to parse data as json.'')
             (Raise (InvalidData (content @ ''}'')))"
  using parse_located [OF assms(2,3), of loads post] assms(1,4) by simp

theorem extractor_invalid_data_witness:
  "\<not> sublist start_marker ([] @ butlast start_marker)
   \<and> \<not> sublist end_marker ('' {oops'' @ butlast end_marker)
   \<and> parse_configuration_from_source (\<lambda>s. Inl ValueError)
        ''__PRELOADED_STATE__ = {oops}</script>''
       = (Log (LogError ''Unable to parse data as json.'')
           (Raise (InvalidData '' {oops}'')) :: (unit, json) prog)"
proof -
  let ?loads = "\<lambda>s :: string. (Inl ValueError :: error + json)"
  have t: "''__PRELOADED_STATE__ = {oops}</script>''
             = [] @ start_marker @ '' {oops'' @ end_marker @ []"
    by (simp add: start_marker_def end_marker_def)
  have a: "\<not> sublist start_marker ([] @ butlast start_marker)"
    by (simp add: start_marker_def sublist_Cons_right)
  have b: "\<not> sublist end_marker ('' {oops'' @ butlast end_marker)"
    by (simp add: end_marker_def sublist_Cons_right)
  have c: "?loads ('' {oops'' @ ''}'') = Inl ValueError"
    by simp
  show ?thesis
    using a b extractor_invalid_data [where loads = ?loads, OF t a b c]
    by simp
qed

text \<open>
  The claim C3 as stated fails: it speaks of every slice that is not valid JSON, and
  the \<^verbatim>\<open>except\<close> clause catches \<^verbatim>\<open>ValueError\<close> only.  On a slice of 100000 opening
  brackets the decoder gives up with \<^verbatim>\<open>RecursionError\<close>, which the extractor lets
  through: no \<open>InvalidData\<close>, no log record.
\<close>

lemma end_marker_not_in_brackets:
  "\<not> sublist end_marker (replicate n (CHR ''['') @ butlast end_marker)"
  by (induction n) (simp_all add: end_marker_def sublist_Cons_right)

lemma takeWhile_brackets:
  "takeWhile (\<lambda>c. c = CHR ''['') (replicate n (CHR ''['') @ ''}'') = replicate n (CHR ''['')"
  by (induction n) simp_all

lemma extractor_deep_slice:
  assumes "100000 \<le> n"
  shows "example_deep_loads (replicate n (CHR ''['') @ ''}'') = Inl (OtherError ''RecursionError'')"
    and "parse_configuration_from_source example_deep_loads
           (''__PRELOADED_STATE__ ='' @ replicate n (CHR ''['') @ ''}</script>'')
         = Raise (OtherError ''RecursionError'')"
proof -
  show l: "example_deep_loads (replicate n (CHR ''['') @ ''}'')
             = Inl (OtherError ''RecursionError'')"
    using assms by (simp add: example_deep_loads_def takeWhile_brackets)
  have a: "\<not> sublist start_marker ([] @ butlast start_marker)"
    by (simp add: start_marker_def sublist_Cons_right)
  have t: "''__PRELOADED_STATE__ ='' @ replicate n (CHR ''['') @ ''}</script>''
             = [] @ start_marker @ replicate n (CHR ''['') @ end_marker @ []"
    by (simp add: start_marker_def end_marker_def)
  show "parse_configuration_from_source example_deep_loads
           (''__PRELOADED_STATE__ ='' @ replicate n (CHR ''['') @ ''}</script>'')
         = Raise (OtherError ''RecursionError'')"
    using parse_located [OF a end_marker_not_in_brackets, of example_deep_loads n "[]"]
    by (simp only: t l) simp
qed

theorem extractor_other_decoder_error:
  "example_deep_loads (replicate 100000 (CHR ''['') @ ''}'')
     = Inl (OtherError ''RecursionError'')
   \<and> parse_configuration_from_source example_deep_loads
         (''__PRELOADED_STATE__ ='' @ replicate 100000 (CHR ''['') @ ''}</script>'')
       = (Raise (OtherError ''RecursionError'') :: (unit, json) prog)"
  using extractor_deep_slice [of 100000] by simp

text \<open>The example pages decode to the example states.\<close>

lemma example_page_one:
  "parse_configuration_from_source example_loads (example_page example_text_one)
     = Return (example_state [example_brand ''p''])"
proof -
  have a: "\<not> sublist start_marker (''<html><script>window.'' @ butlast start_marker)"
    by (simp add: start_marker_def sublist_Cons_right)
  have b: "\<not> sublist end_marker (('' '' @ butlast example_text_one) @ butlast end_marker)"
    by (simp add: end_marker_def example_text_one_def sublist_Cons_right)
  have t: "example_page example_text_one =
      ''<html><script>window.'' @ start_marker @ ('' '' @ butlast example_text_one)
        @ end_marker @ ''</html>''"
    by (simp add: example_page_def start_marker_def end_marker_def example_text_one_def)
  have l: "example_loads (('' '' @ butlast example_text_one) @ ''}'')
             = Inr (example_state [example_brand ''p''])"
    by (simp add: example_loads_def example_text_one_def)
  show ?thesis
    using parse_located [OF a b, of example_loads "''</html>''"] by (simp only: t l) simp
qed

lemma example_page_two:
  "parse_configuration_from_source example_loads (example_page example_text_two)
     = Return (example_state [example_brand ''p'', example_brand ''q''])"
proof -
  have a: "\<not> sublist start_marker (''<html><script>window.'' @ butlast start_marker)"
    by (simp add: start_marker_def sublist_Cons_right)
  have b: "\<not> sublist end_marker (('' '' @ butlast example_text_two) @ butlast end_marker)"
    by (simp add: end_marker_def example_text_two_def sublist_Cons_right)
  have t: "example_page example_text_two =
      ''<html><script>window.'' @ start_marker @ ('' '' @ butlast example_text_two)
        @ end_marker @ ''</html>''"
    by (simp add: example_page_def start_marker_def end_marker_def example_text_two_def)
  have l: "example_loads (('' '' @ butlast example_text_two) @ ''}'')
             = Inr (example_state [example_brand ''p'', example_brand ''q''])"
    by (simp add: example_loads_def example_text_two_def example_text_one_def)
  show ?thesis
    using parse_located [OF a b, of example_loads "''</html>''"] by (simp only: t l) simp
qed

section \<open>Running the code\<close>

lemma exec_bind:
  "exec net (bind p f) w =
     (case exec net p w of
        (ys, w', Inl e) \<Rightarrow> (ys, w', Inl e)
      | (ys, w', Inr r) \<Rightarrow> (case exec net (f r) w' of (zs, w'', res) \<Rightarrow> (ys @ zs, w'', res)))"
  by (induction p arbitrary: w) (auto split: prod.splits sum.splits)

lemma bind_lift_Inr [simp]: "bind (lift (Inr v)) f = f v"
  by (simp add: lift_def)

lemma bind_lift_Inl [simp]: "bind (lift (Inl e)) f = Raise e"
  by (simp add: lift_def)

lemma exec_for_list_yield:
  "exec net (for_list xs (\<lambda>x. Yield (g x) (Return ()))) w = (map g xs, w, Inr ())"
  by (induction xs) (auto simp: exec_bind)

text \<open>Code only adds to the requests issued.\<close>

lemma exec_requests_grow:
  "exec net p w = (ys, w', r) \<Longrightarrow> prefix (requests w) (requests w')"
proof (induction p arbitrary: w ys)
  case (Request u k)
  have "prefix (requests (w\<lparr>requests := requests w @ [u]\<rparr>)) (requests w')"
    by (rule Request.IH [OF rangeI]) (use Request.prems in simp)
  then show ?case
    by (simp add: append_prefixD)
next
  case (Log l p)
  have "prefix (requests (w\<lparr>logged := logged w @ [l]\<rparr>)) (requests w')"
    by (rule Log.IH) (use Log.prems in simp)
  then show ?case by simp
qed (auto split: prod.splits)

section \<open>Brands\<close>

text \<open>\<^verbatim>\<open>Brand(**kw)\<close> succeeds exactly when the keys are the five field names.\<close>

lemma Brand_init_ok:
  assumes "fst ` set kw = set Brand_fields"
  shows "\<exists>b. Brand_init kw = Inr b"
proof -
  have keys: "\<not> list_ex (\<lambda>k. k \<notin> set Brand_fields) (map fst kw)"
    using assms by (auto simp: list_ex_iff)
  have "\<forall>f \<in> set Brand_fields. map_of kw f \<noteq> None"
    using assms by (simp add: map_of_eq_None_iff)
  then obtain c i u p n where
    "map_of kw ''channels'' = Some c" "map_of kw ''_id'' = Some i"
    "map_of kw ''canonical_url'' = Some u" "map_of kw ''param'' = Some p"
    "map_of kw ''name'' = Some n"
    by (auto simp: Brand_fields_def)
  with keys show ?thesis
    by (simp add: Brand_init_def)
qed

lemma Brand_init_bad:
  assumes "fst ` set kw \<noteq> set Brand_fields"
  shows "Brand_init kw = Inl TypeError"
proof (cases "list_ex (\<lambda>k. k \<notin> set Brand_fields) (map fst kw)")
  case True
  then show ?thesis by (simp add: Brand_init_def)
next
  case False
  then have "fst ` set kw \<subseteq> set Brand_fields"
    by (auto simp: list_ex_iff)
  with assms obtain f where f: "f \<in> set Brand_fields" "f \<notin> fst ` set kw"
    by auto
  then have "map_of kw f = None"
    by (simp add: map_of_eq_None_iff)
  with f(1) show ?thesis
    by (auto simp: Brand_init_def Brand_fields_def split: option.splits)
qed

lemma Brand_from_example: "Brand_from (example_brand p) = Inr (example_Brand p)"
  by (simp add: Brand_from_def Brand_init_def Brand_fields_def example_brand_def
      example_Brand_def)

text \<open>With \<open>content\<close>, \<open>genres\<close> and \<open>brands\<close> in place, \<^verbatim>\<open>_brands\<close> is the loop over the array.\<close>

lemma brands_of_data_entries:
  assumes "map_of s ''content'' = Some (JObj c)"
    and "map_of c ''genres'' = Some (JObj g)"
    and "map_of g ''brands'' = Some (JArr es)"
  shows "brands_of_data (JObj s) =
           for_list es (\<lambda>brand. bind (lift (Brand_from brand)) (\<lambda>b. Yield b (Return ())))"
  by (simp add: brands_of_data_def py_get_def dict_get_def py_iter_def assms)

lemma exec_brand_loop:
  assumes "map Brand_from good = map Inr bs"
  shows "exec net (for_list (good @ rest)
            (\<lambda>brand. bind (lift (Brand_from brand)) (\<lambda>b. Yield b (Return ())))) w =
         (case exec net (for_list rest
            (\<lambda>brand. bind (lift (Brand_from brand)) (\<lambda>b. Yield b (Return ())))) w of
            (ys, w', res) \<Rightarrow> (bs @ ys, w', res))"
  using assms
proof (induction good arbitrary: bs)
  case Nil
  then show ?case by (simp split: prod.splits)
next
  case (Cons e es)
  then obtain b bs' where
    bs: "bs = b # bs'" "Brand_from e = Inr b" "map Brand_from es = map Inr bs'"
    by (cases bs) auto
  show ?case
    using Cons.IH [OF bs(3)] bs(1,2) by (simp add: exec_bind split: prod.splits)
qed

lemma Service_brands_root:
  assumes "net (requests w) (url self) = Inr page"
    and "parse_configuration_from_source loads (resp_text page)
           = (Return state :: (Brand, json) prog)"
  shows "exec net (Service_brands loads self) w =
           exec net (brands_of_data state) (w\<lparr>requests := requests w @ [url self]\<rparr>)"
  by (simp add: Service_brands_def Service_data_def assms)

text \<open>
  C4.  The claim is that \<^verbatim>\<open>_brands\<close> yields the empty sequence when \<^verbatim>\<open>content\<close>,
  \<^verbatim>\<open>genres\<close> or \<^verbatim>\<open>brands\<close> is absent.  The code raises in each of the three cases:
  on a state without \<^verbatim>\<open>content\<close> the second \<^verbatim>\<open>get\<close> is called on \<^verbatim>\<open>None\<close>; on a
  state without \<^verbatim>\<open>genres\<close> the default \<^verbatim>\<open>{}\<close> is used, its \<^verbatim>\<open>get('brands')\<close> is
  \<^verbatim>\<open>None\<close>, and \<^verbatim>\<open>None\<close> is not iterable; likewise without \<^verbatim>\<open>brands\<close>.
\<close>

theorem brands_absent_level_raises:
  "brands_of_data (JObj []) = Raise AttributeError
   \<and> brands_of_data (JObj [(''content'', JObj [])]) = Raise TypeError
   \<and> brands_of_data (JObj [(''content'', JObj [(''genres'', JObj [])])]) = Raise TypeError"
  by (simp add: brands_of_data_def py_get_def dict_get_def py_iter_def)

text \<open>
  C5.  An entry of the \<^verbatim>\<open>brands\<close> array whose keys are not exactly the five field
  names cannot be constructed: \<^verbatim>\<open>Brand(**entry)\<close> raises \<^verbatim>\<open>TypeError\<close>, and the
  brand sequence, having yielded the brands of the entries before it, ends with
  that error.
\<close>

theorem brand_construction_hard_failure:
  assumes "fst ` set kw \<noteq> set Brand_fields"
    and "map_of s ''content'' = Some (JObj c)"
    and "map_of c ''genres'' = Some (JObj g)"
    and "map_of g ''brands'' = Some (JArr (good @ JObj kw # rest))"
    and "map Brand_from good = map Inr bs"
  shows "Brand_from (JObj kw) = Inl TypeError
         \<and> exec net (brands_of_data (JObj s)) w = (bs, w, Inl TypeError)"
proof -
  have bad: "Brand_from (JObj kw) = Inl TypeError"
    using Brand_init_bad [OF assms(1)] by (simp add: Brand_from_def)
  then show ?thesis
    using exec_brand_loop [OF assms(5), of net "JObj kw # rest" w]
    by (simp add: brands_of_data_entries [OF assms(2,3,4)])
qed

theorem brand_construction_hard_failure_witness:
  "fst ` set [(''channels'', JInt 5), (''_id'', JObj []), (''canonical_url'', JStr ''u''),
              (''param'', JStr ''q''), (''logo'', JNull)] \<noteq> set Brand_fields
   \<and> Brand_from (JObj [(''channels'', JInt 5), (''_id'', JObj []),
        (''canonical_url'', JStr ''u''), (''param'', JStr ''q''), (''logo'', JNull)])
       = Inl TypeError
   \<and> exec (example_network [])
        (brands_of_data (example_state [example_brand ''p'',
           JObj [(''channels'', JInt 5), (''_id'', JObj []), (''canonical_url'', JStr ''u''),
                 (''param'', JStr ''q''), (''logo'', JNull)],
           example_brand ''r'']))
        \<lparr>requests = [], logged = []\<rparr>
       = ([example_Brand ''p''], \<lparr>requests = [], logged = []\<rparr>, Inl TypeError)"
proof -
  let ?kw = "[(''channels'', JInt 5), (''_id'', JObj []), (''canonical_url'', JStr ''u''),
              (''param'', JStr ''q''), (''logo'', JNull)]"
  let ?es = "[example_brand ''p''] @ JObj ?kw # [example_brand ''r'']"
  have "''logo'' \<in> fst ` set ?kw"
    by simp
  moreover have "''logo'' \<notin> set Brand_fields"
    by (simp add: Brand_fields_def)
  ultimately have k: "fst ` set ?kw \<noteq> set Brand_fields"
    by metis
  have s: "map_of [(''content'', JObj [(''genres'', JObj [(''brands'', JArr ?es)])])] ''content''
             = Some (JObj [(''genres'', JObj [(''brands'', JArr ?es)])])"
    by simp
  have c: "map_of [(''genres'', JObj [(''brands'', JArr ?es)])] ''genres''
             = Some (JObj [(''brands'', JArr ?es)])"
    by simp
  have g: "map_of [(''brands'', JArr ?es)] ''brands'' = Some (JArr ?es)"
    by simp
  have b: "map Brand_from [example_brand ''p''] = map Inr [example_Brand ''p'']"
    by (simp add: Brand_from_example)
  show ?thesis
    using k brand_construction_hard_failure [OF k s c g b,
        of "example_network []" "\<lparr>requests = [], logged = []\<rparr>"]
    by (simp add: example_state_def)
qed

text \<open>
  C6.  When the state embedded in the root page has as \<^verbatim>\<open>content.genres.brands\<close> the
  single entry of the example, the brand sequence issues the one request for the
  root page and yields exactly one \<open>Brand\<close>, whose \<^verbatim>\<open>oid\<close> is \<^verbatim>\<open>"abc"\<close>.  In general
  the \<^verbatim>\<open>oid\<close> of a brand whose \<^verbatim>\<open>_id\<close> is a mapping is the \<^verbatim>\<open>$oid\<close> entry of that
  mapping, and \<^verbatim>\<open>None\<close> when there is none.
\<close>

theorem single_brand_has_oid:
  assumes "net (requests w) (url self) = Inr page"
    and "parse_configuration_from_source loads (resp_text page)
           = (Return (JObj s) :: (Brand, json) prog)"
    and "map_of s ''content'' = Some (JObj c)"
    and "map_of c ''genres'' = Some (JObj g)"
    and "map_of g ''brands'' = Some (JArr [JObj
           [(''channels'', JInt 5), (''_id'', JObj [(''$oid'', JStr ''abc'')]),
            (''canonical_url'', JStr ''u''), (''param'', JStr ''p''), (''name'', JStr ''n'')]])"
  shows "exec net (Service_brands loads self) w
           = ([\<lparr>Brand_channels = JInt 5, Brand_id = JObj [(''$oid'', JStr ''abc'')],
                Brand_canonical_url = JStr ''u'', Brand_param = JStr ''p'',
                Brand_name = JStr ''n''\<rparr>],
              w\<lparr>requests := requests w @ [url self]\<rparr>, Inr ())
         \<and> Brand_oid \<lparr>Brand_channels = JInt 5, Brand_id = JObj [(''$oid'', JStr ''abc'')],
                Brand_canonical_url = JStr ''u'', Brand_param = JStr ''p'',
                Brand_name = JStr ''n''\<rparr> = Inr (JStr ''abc'')
         \<and> (Brand_id b = JObj i \<longrightarrow>
               Brand_oid b = Inr (case map_of i ''$oid'' of Some v \<Rightarrow> v | None \<Rightarrow> JNull))"
proof -
  have "exec net (Service_brands loads self) w
          = exec net (brands_of_data (JObj s)) (w\<lparr>requests := requests w @ [url self]\<rparr>)"
    using assms(1,2) by (rule Service_brands_root)
  then show ?thesis
    by (simp add: brands_of_data_entries [OF assms(3,4,5)] Brand_from_def Brand_init_def
        Brand_fields_def Brand_oid_def py_get_def dict_get_def)
qed

theorem single_brand_has_oid_witness:
  "exec (example_network (example_page example_text_one))
        (Service_brands example_loads Service_init) \<lparr>requests = [], logged = []\<rparr>
     = ([example_Brand ''p''],
        \<lparr>requests = [''https://www.accuradio.com''], logged = []\<rparr>, Inr ())
   \<and> Brand_oid (example_Brand ''p'') = Inr (JStr ''abc'')
   \<and> Brand_oid \<lparr>Brand_channels = JInt 5, Brand_id = JObj [],
        Brand_canonical_url = JStr ''u'', Brand_param = JStr ''p'',
        Brand_name = JStr ''n''\<rparr> = Inr JNull"
proof -
  let ?page = "\<lparr>resp_text = example_page example_text_one, resp_json = Inl ValueError\<rparr>"
  let ?es = "[example_brand ''p'']"
  have n: "example_network (example_page example_text_one)
             (requests \<lparr>requests = [], logged = []\<rparr>) (url Service_init) = Inr ?page"
    by (simp add: example_network_def Service_init_def)
  have p: "parse_configuration_from_source example_loads (resp_text ?page)
             = (Return (JObj [(''content'', JObj [(''genres'', JObj [(''brands'', JArr ?es)])])])
                 :: (Brand, json) prog)"
    using example_page_one by (simp add: example_state_def)
  have s: "map_of [(''content'', JObj [(''genres'', JObj [(''brands'', JArr ?es)])])] ''content''
             = Some (JObj [(''genres'', JObj [(''brands'', JArr ?es)])])"
    by simp
  have c: "map_of [(''genres'', JObj [(''brands'', JArr ?es)])] ''genres''
             = Some (JObj [(''brands'', JArr ?es)])"
    by simp
  have g: "map_of [(''brands'', JArr ?es)] ''brands'' = Some (JArr [JObj
           [(''channels'', JInt 5), (''_id'', JObj [(''$oid'', JStr ''abc'')]),
            (''canonical_url'', JStr ''u''), (''param'', JStr ''p''), (''name'', JStr ''n'')]])"
    by (simp add: example_brand_def)
  have i: "Brand_id \<lparr>Brand_channels = JInt 5, Brand_id = JObj [],
        Brand_canonical_url = JStr ''u'', Brand_param = JStr ''p'',
        Brand_name = JStr ''n''\<rparr> = JObj []"
    by simp
  show ?thesis
    using i single_brand_has_oid [where net = "example_network (example_page example_text_one)"
        and w = "\<lparr>requests = [], logged = []\<rparr>" and self = Service_init
        and loads = example_loads and page = ?page and i = "[]"
        and b = "\<lparr>Brand_channels = JInt 5, Brand_id = JObj [],
          Brand_canonical_url = JStr ''u'', Brand_param = JStr ''p'',
          Brand_name = JStr ''n''\<rparr>", OF n p s c g]
    by (simp add: example_Brand_def Service_init_def)
qed

section \<open>Channels\<close>

lemma Service_channels_root:
  assumes "net (requests w) (url self) = Inr page"
    and "parse_configuration_from_source loads (resp_text page)
           = (Return state :: (Brand, json) prog)"
  shows "exec net (Service_channels loads fmt self) w =
           exec net (for_each (brands_of_data state) (channels_of_brand fmt self))
             (w\<lparr>requests := requests w @ [url self]\<rparr>)"
  by (simp add: Service_channels_def Service_brands_def Service_data_def assms)

lemma for_each_brand_loop_Cons:
  "for_each (for_list (e # es)
      (\<lambda>brand. bind (lift (Brand_from brand)) (\<lambda>b. Yield b (Return ())))) body =
     (case Brand_from e of
        Inl err \<Rightarrow> Raise err
      | Inr b \<Rightarrow> bind (body b) (\<lambda>_. for_each (for_list es
          (\<lambda>brand. bind (lift (Brand_from brand)) (\<lambda>b. Yield b (Return ())))) body))"
  by (cases "Brand_from e") simp_all

text \<open>The body of the loop of \<^verbatim>\<open>channels\<close>, for one brand.\<close>

lemma exec_channels_of_brand_array:
  assumes "net (requests w) (genre_url fmt self b) = Inr r"
    and "resp_json r = Inr (JObj d)"
    and "map_of d ''channels'' = Some (JArr cs)"
  shows "exec net (channels_of_brand fmt self b) w =
     (map (\<lambda>c. \<lparr>service = self, data = c\<rparr>) cs,
      w\<lparr>requests := requests w @ [genre_url fmt self b]\<rparr>, Inr ())"
  by (simp add: channels_of_brand_def assms py_get_def dict_get_def py_iter_def
      exec_for_list_yield)

lemma exec_channels_of_brand_missing:
  assumes "net (requests w) (genre_url fmt self b) = Inr r"
    and "resp_json r = Inr (JObj d)"
    and "map_of d ''channels'' = None"
  shows "exec net (channels_of_brand fmt self b) w =
     ([], w\<lparr>requests := requests w @ [genre_url fmt self b]\<rparr>, Inl TypeError)"
  by (simp add: channels_of_brand_def assms py_get_def dict_get_def py_iter_def)

text \<open>
  The loop over the brands, as long as every entry constructs and every genre request
  is answered with an object that has a \<^verbatim>\<open>channels\<close> array: one request for each brand,
  in order, and one channel for each entry of each array.
\<close>

lemma exec_channels_prefix:
  assumes "map Brand_from good = map Inr bs"
    and "length css = length bs"
    and "\<forall>i<length bs. \<exists>r d.
           net (requests w @ map (genre_url fmt self) (take i bs)) (genre_url fmt self (bs ! i))
             = Inr r
           \<and> resp_json r = Inr (JObj d) \<and> map_of d ''channels'' = Some (JArr (css ! i))"
  shows "exec net (for_each (for_list (good @ rest)
            (\<lambda>brand. bind (lift (Brand_from brand)) (\<lambda>b. Yield b (Return ()))))
            (channels_of_brand fmt self)) w =
         (case exec net (for_each (for_list rest
            (\<lambda>brand. bind (lift (Brand_from brand)) (\<lambda>b. Yield b (Return ()))))
            (channels_of_brand fmt self))
            (w\<lparr>requests := requests w @ map (genre_url fmt self) bs\<rparr>) of
            (ys, w', res) \<Rightarrow>
              (concat (map (map (\<lambda>c. \<lparr>service = self, data = c\<rparr>)) css) @ ys, w', res))"
  using assms
proof (induction good arbitrary: bs css w)
  case Nil
  then show ?case by (simp split: prod.splits)
next
  case (Cons e es)
  from Cons.prems(1) obtain b bs' where
    bs: "bs = b # bs'" "Brand_from e = Inr b" "map Brand_from es = map Inr bs'"
    by (cases bs) auto
  from Cons.prems(2) bs(1) obtain cs css' where
    css: "css = cs # css'" "length css' = length bs'"
    by (cases css) auto
  let ?w1 = "w\<lparr>requests := requests w @ [genre_url fmt self b]\<rparr>"
  from Cons.prems(3) [rule_format, of 0] bs(1) css(1) obtain r d where
    first: "net (requests w) (genre_url fmt self b) = Inr r"
      "resp_json r = Inr (JObj d)" "map_of d ''channels'' = Some (JArr cs)"
    by auto
  have step: "exec net (channels_of_brand fmt self b) w =
      (map (\<lambda>c. \<lparr>service = self, data = c\<rparr>) cs, ?w1, Inr ())"
    using first by (rule exec_channels_of_brand_array)
  have later: "\<forall>i<length bs'. \<exists>r d.
      net (requests ?w1 @ map (genre_url fmt self) (take i bs')) (genre_url fmt self (bs' ! i))
        = Inr r
      \<and> resp_json r = Inr (JObj d) \<and> map_of d ''channels'' = Some (JArr (css' ! i))"
  proof (intro allI impI)
    fix i assume "i < length bs'"
    then have "Suc i < length bs" using bs(1) by simp
    from Cons.prems(3) [rule_format, OF this] show "\<exists>r d.
      net (requests ?w1 @ map (genre_url fmt self) (take i bs')) (genre_url fmt self (bs' ! i))
        = Inr r
      \<and> resp_json r = Inr (JObj d) \<and> map_of d ''channels'' = Some (JArr (css' ! i))"
      using bs(1) css(1) by simp
  qed
  have w: "?w1\<lparr>requests := requests ?w1 @ map (genre_url fmt self) bs'\<rparr>
             = w\<lparr>requests := requests w @ map (genre_url fmt self) bs\<rparr>"
    using bs(1) by simp
  show ?case
    using Cons.IH [OF bs(3) css(2) later] bs(1,2) css(1) step w
    by (simp add: for_each_brand_loop_Cons exec_bind split: prod.splits)
qed

text \<open>The runs of the examples.\<close>

lemma example_url: "url Service_init = ''https://www.accuradio.com''"
  by (simp add: Service_init_def)

lemma example_genre_url:
  "genre_url fmt Service_init (example_Brand p)
     = ''https://www.accuradio.com/c/m/json/genre/?param='' @ p"
  by (simp add: genre_url_def Service_init_def example_Brand_def py_format_def)


text \<open>
  C7.  Let the root page decode to a state whose \<^verbatim>\<open>content.genres.brands\<close> array
  constructs the brands \<open>bs\<close>, and let the genre request for each brand, sent to the
  base URL followed by \<^verbatim>\<open>/c/m/json/genre/?param=\<close> and the brand's \<^verbatim>\<open>param\<close>, be
  answered with a JSON object whose \<^verbatim>\<open>channels\<close> array is the matching element of
  \<open>css\<close>.  Then the channel sequence issues the root request and one genre request for
  each brand, in order, and yields exactly one \<open>Channel\<close> for each entry of each array,
  wrapping the service and the entry.  For the entry of the example, the channel's id
  is \<^verbatim>\<open>"1"\<close>, its name is \<^verbatim>\<open>"A"\<close> and its logo is \<^verbatim>\<open>None\<close>.
\<close>

theorem channels_one_per_entry:
  assumes "net (requests w) (url self) = Inr page"
    and "parse_configuration_from_source loads (resp_text page)
           = (Return (JObj s) :: (Brand, json) prog)"
    and "map_of s ''content'' = Some (JObj c)"
    and "map_of c ''genres'' = Some (JObj g)"
    and "map_of g ''brands'' = Some (JArr es)"
    and "map Brand_from es = map Inr bs"
    and "length css = length bs"
    and "\<forall>i<length bs. \<exists>r d.
           net (requests w @ url self # map (genre_url fmt self) (take i bs))
               (genre_url fmt self (bs ! i)) = Inr r
           \<and> resp_json r = Inr (JObj d) \<and> map_of d ''channels'' = Some (JArr (css ! i))"
  shows "exec net (Service_channels loads fmt self) w =
           (concat (map (map (\<lambda>ch. \<lparr>service = self, data = ch\<rparr>)) css),
            w\<lparr>requests := requests w @ url self # map (genre_url fmt self) bs\<rparr>,
            Inr ())
         \<and> (Brand_param b = JStr p \<longrightarrow>
               genre_url fmt self b = url self @ ''/c/m/json/genre/?param='' @ p)
         \<and> Channel_id \<lparr>service = self, data = JObj [(''_id'', JObj [(''$oid'', JStr ''1'')]),
               (''name'', JStr ''A''), (''description'', JStr ''d'')]\<rparr> = Inr (JStr ''1'')
         \<and> Channel_name \<lparr>service = self, data = JObj [(''_id'', JObj [(''$oid'', JStr ''1'')]),
               (''name'', JStr ''A''), (''description'', JStr ''d'')]\<rparr> = Inr (JStr ''A'')
         \<and> Channel_logo \<lparr>service = self, data = JObj [(''_id'', JObj [(''$oid'', JStr ''1'')]),
               (''name'', JStr ''A''), (''description'', JStr ''d'')]\<rparr> = JNull"
proof -
  let ?w0 = "w\<lparr>requests := requests w @ [url self]\<rparr>"
  have hyp: "\<forall>i<length bs. \<exists>r d.
           net (requests ?w0 @ map (genre_url fmt self) (take i bs))
               (genre_url fmt self (bs ! i)) = Inr r
           \<and> resp_json r = Inr (JObj d) \<and> map_of d ''channels'' = Some (JArr (css ! i))"
    using assms(8) by simp
  have "exec net (Service_channels loads fmt self) w =
          exec net (for_each (brands_of_data (JObj s)) (channels_of_brand fmt self)) ?w0"
    using assms(1,2) by (rule Service_channels_root)
  then have run: "exec net (Service_channels loads fmt self) w =
           (concat (map (map (\<lambda>ch. \<lparr>service = self, data = ch\<rparr>)) css),
            w\<lparr>requests := requests w @ url self # map (genre_url fmt self) bs\<rparr>,
            Inr ())"
    using exec_channels_prefix [OF assms(6,7) hyp, of "[]"]
    by (simp add: brands_of_data_entries [OF assms(3,4,5)])
  show ?thesis
    by (simp add: run genre_url_def py_format_def Channel_id_def Channel_name_def
        Channel_logo_def py_get_def dict_get_def)
qed

theorem channels_one_per_entry_witness:
  "exec (example_network (example_page example_text_one))
        (Service_channels example_loads (\<lambda>v. []) Service_init)
        \<lparr>requests = [], logged = []\<rparr>
     = ([example_Channel],
        \<lparr>requests = [''https://www.accuradio.com'',
                      ''https://www.accuradio.com/c/m/json/genre/?param=p''],
         logged = []\<rparr>, Inr ())
   \<and> Channel_id example_Channel = Inr (JStr ''1'')
   \<and> Channel_name example_Channel = Inr (JStr ''A'')
   \<and> Channel_logo example_Channel = JNull"
proof -
  let ?net = "example_network (example_page example_text_one)"
  let ?fmt = "\<lambda>v :: json. [] :: string"
  let ?w = "\<lparr>requests = [], logged = []\<rparr>"
  let ?page = "\<lparr>resp_text = example_page example_text_one, resp_json = Inl ValueError\<rparr>"
  let ?es = "[example_brand ''p'']"
  let ?g = "[(''brands'', JArr ?es)]"
  let ?c = "[(''genres'', JObj ?g)]"
  let ?s = "[(''content'', JObj ?c)]"
  have n: "?net (requests ?w) (url Service_init) = Inr ?page"
    by (simp add: example_network_def example_url)
  have p: "parse_configuration_from_source example_loads (resp_text ?page)
             = (Return (JObj ?s) :: (Brand, json) prog)"
    using example_page_one by (simp add: example_state_def)
  have s: "map_of ?s ''content'' = Some (JObj ?c)"
    by simp
  have c: "map_of ?c ''genres'' = Some (JObj ?g)"
    by simp
  have g: "map_of ?g ''brands'' = Some (JArr ?es)"
    by simp
  have b: "map Brand_from ?es = map Inr [example_Brand ''p'']"
    by (simp add: Brand_from_example)
  have l: "length [[example_channel]] = length [example_Brand ''p'']"
    by simp
  have r: "\<forall>i<length [example_Brand ''p'']. \<exists>r d.
      ?net (requests ?w @ url Service_init
              # map (genre_url ?fmt Service_init) (take i [example_Brand ''p'']))
           (genre_url ?fmt Service_init ([example_Brand ''p''] ! i)) = Inr r
      \<and> resp_json r = Inr (JObj d)
      \<and> map_of d ''channels'' = Some (JArr ([[example_channel]] ! i))"
    by (simp add: example_genre_url example_url example_network_def)
  show ?thesis
    using channels_one_per_entry [where net = ?net and w = ?w and self = Service_init
        and page = ?page and loads = example_loads and s = ?s and c = ?c and g = ?g
        and es = ?es and bs = "[example_Brand ''p'']" and css = "[[example_channel]]"
        and fmt = ?fmt and b = "example_Brand ''p''" and p = "''p''", OF n p s c g b l r]
    by (simp add: example_genre_url example_url example_Channel_def example_channel_def)
qed

text \<open>
  C10.  Let the brands before some brand \<open>b\<close> be served as in C7, and let the genre
  request for \<open>b\<close> be answered with a JSON object that has no \<^verbatim>\<open>channels\<close> key.  Then
  the channel sequence yields the channels of the brands before \<open>b\<close>, issues the
  request for \<open>b\<close> and raises \<^verbatim>\<open>TypeError\<close>; the brands after \<open>b\<close> are never
  requested.
\<close>

theorem channels_missing_key_raises:
  assumes "net (requests w) (url self) = Inr page"
    and "parse_configuration_from_source loads (resp_text page)
           = (Return (JObj s) :: (Brand, json) prog)"
    and "map_of s ''content'' = Some (JObj c)"
    and "map_of c ''genres'' = Some (JObj g)"
    and "map_of g ''brands'' = Some (JArr (good @ e # rest))"
    and "map Brand_from good = map Inr bs"
    and "length css = length bs"
    and "\<forall>i<length bs. \<exists>r d.
           net (requests w @ url self # map (genre_url fmt self) (take i bs))
               (genre_url fmt self (bs ! i)) = Inr r
           \<and> resp_json r = Inr (JObj d) \<and> map_of d ''channels'' = Some (JArr (css ! i))"
    and "Brand_from e = Inr b"
    and "net (requests w @ url self # map (genre_url fmt self) bs) (genre_url fmt self b)
           = Inr r"
    and "resp_json r = Inr (JObj d)"
    and "map_of d ''channels'' = None"
  shows "exec net (Service_channels loads fmt self) w =
           (concat (map (map (\<lambda>ch. \<lparr>service = self, data = ch\<rparr>)) css),
            w\<lparr>requests := requests w @ url self # map (genre_url fmt self) (bs @ [b])\<rparr>,
            Inl TypeError)"
proof -
  let ?w0 = "w\<lparr>requests := requests w @ [url self]\<rparr>"
  let ?w1 = "?w0\<lparr>requests := requests ?w0 @ map (genre_url fmt self) bs\<rparr>"
  have hyp: "\<forall>i<length bs. \<exists>r d.
           net (requests ?w0 @ map (genre_url fmt self) (take i bs))
               (genre_url fmt self (bs ! i)) = Inr r
           \<and> resp_json r = Inr (JObj d) \<and> map_of d ''channels'' = Some (JArr (css ! i))"
    using assms(8) by simp
  have "net (requests ?w1) (genre_url fmt self b) = Inr r"
    using assms(10) by simp
  then have fail: "exec net (channels_of_brand fmt self b) ?w1 =
      ([], ?w1\<lparr>requests := requests ?w1 @ [genre_url fmt self b]\<rparr>, Inl TypeError)"
    using assms(11,12) by (rule exec_channels_of_brand_missing)
  have "exec net (Service_channels loads fmt self) w =
          exec net (for_each (brands_of_data (JObj s)) (channels_of_brand fmt self)) ?w0"
    using assms(1,2) by (rule Service_channels_root)
  then show ?thesis
    using exec_channels_prefix [OF assms(6,7) hyp, of "e # rest"] fail assms(9)
    by (simp add: brands_of_data_entries [OF assms(3,4,5)] for_each_brand_loop_Cons exec_bind)
qed

theorem channels_missing_key_raises_witness:
  "exec (example_network (example_page example_text_two))
        (Service_channels example_loads (\<lambda>v. []) Service_init)
        \<lparr>requests = [], logged = []\<rparr>
     = ([example_Channel],
        \<lparr>requests = [''https://www.accuradio.com'',
                      ''https://www.accuradio.com/c/m/json/genre/?param=p'',
                      ''https://www.accuradio.com/c/m/json/genre/?param=q''],
         logged = []\<rparr>, Inl TypeError)"
proof -
  let ?net = "example_network (example_page example_text_two)"
  let ?fmt = "\<lambda>v :: json. [] :: string"
  let ?w = "\<lparr>requests = [], logged = []\<rparr>"
  let ?page = "\<lparr>resp_text = example_page example_text_two, resp_json = Inl ValueError\<rparr>"
  let ?r = "\<lparr>resp_text = ''{}'', resp_json = Inr (JObj [])\<rparr>"
  let ?es = "[example_brand ''p''] @ example_brand ''q'' # []"
  let ?g = "[(''brands'', JArr ?es)]"
  let ?c = "[(''genres'', JObj ?g)]"
  let ?s = "[(''content'', JObj ?c)]"
  have n: "?net (requests ?w) (url Service_init) = Inr ?page"
    by (simp add: example_network_def example_url)
  have p: "parse_configuration_from_source example_loads (resp_text ?page)
             = (Return (JObj ?s) :: (Brand, json) prog)"
    using example_page_two by (simp add: example_state_def)
  have s: "map_of ?s ''content'' = Some (JObj ?c)"
    by simp
  have c: "map_of ?c ''genres'' = Some (JObj ?g)"
    by simp
  have g: "map_of ?g ''brands'' = Some (JArr ?es)"
    by simp
  have b: "map Brand_from [example_brand ''p''] = map Inr [example_Brand ''p'']"
    by (simp add: Brand_from_example)
  have l: "length [[example_channel]] = length [example_Brand ''p'']"
    by simp
  have r: "\<forall>i<length [example_Brand ''p'']. \<exists>r d.
      ?net (requests ?w @ url Service_init
              # map (genre_url ?fmt Service_init) (take i [example_Brand ''p'']))
           (genre_url ?fmt Service_init ([example_Brand ''p''] ! i)) = Inr r
      \<and> resp_json r = Inr (JObj d)
      \<and> map_of d ''channels'' = Some (JArr ([[example_channel]] ! i))"
    by (simp add: example_genre_url example_url example_network_def)
  have q: "Brand_from (example_brand ''q'') = Inr (example_Brand ''q'')"
    by (rule Brand_from_example)
  have f: "?net (requests ?w @ url Service_init
              # map (genre_url ?fmt Service_init) [example_Brand ''p''])
           (genre_url ?fmt Service_init (example_Brand ''q'')) = Inr ?r"
    by (simp add: example_genre_url example_url example_network_def)
  have j: "resp_json ?r = Inr (JObj [])"
    by simp
  have d: "map_of ([] :: (string \<times> json) list) ''channels'' = None"
    by simp
  show ?thesis
    using channels_missing_key_raises [where net = ?net and w = ?w and self = Service_init
        and page = ?page and loads = example_loads and s = ?s and c = ?c and g = ?g
        and good = "[example_brand ''p'']" and e = "example_brand ''q''" and rest = "[]"
        and bs = "[example_Brand ''p'']" and css = "[[example_channel]]" and fmt = ?fmt
        and b = "example_Brand ''q''" and r = ?r and d = "[]",
        OF n p s c g b l r q f j d]
    by (simp add: example_genre_url example_url example_Channel_def)
qed

section \<open>The accessors of a channel\<close>

text \<open>
  C9, as amended.  For a channel that wraps a raw entry mapping, \<^verbatim>\<open>name\<close> and
  \<^verbatim>\<open>description\<close> return the value of the field, or \<^verbatim>\<open>None\<close> when it is missing, and
  never fail.  \<^verbatim>\<open>id\<close> returns \<^verbatim>\<open>None\<close> when \<^verbatim>\<open>_id\<close> is missing and, when \<^verbatim>\<open>_id\<close> is
  itself a mapping, its \<^verbatim>\<open>$oid\<close> entry or \<^verbatim>\<open>None\<close> when that is missing.
\<close>

theorem channel_accessors_project:
  "Channel_name \<lparr>service = svc, data = JObj d\<rparr>
     = Inr (case map_of d ''name'' of Some v \<Rightarrow> v | None \<Rightarrow> JNull)
   \<and> Channel_description \<lparr>service = svc, data = JObj d\<rparr>
     = Inr (case map_of d ''description'' of Some v \<Rightarrow> v | None \<Rightarrow> JNull)
   \<and> (map_of d ''_id'' = None \<longrightarrow> Channel_id \<lparr>service = svc, data = JObj d\<rparr> = Inr JNull)
   \<and> (map_of d ''_id'' = Some (JObj i) \<longrightarrow>
        Channel_id \<lparr>service = svc, data = JObj d\<rparr>
          = Inr (case map_of i ''$oid'' of Some v \<Rightarrow> v | None \<Rightarrow> JNull))"
  by (simp add: Channel_name_def Channel_description_def Channel_id_def py_get_def dict_get_def)

theorem channel_accessors_project_witness:
  "Channel_name example_Channel = Inr (JStr ''A'')
   \<and> Channel_description example_Channel = Inr (JStr ''d'')
   \<and> Channel_id example_Channel = Inr (JStr ''1'')
   \<and> Channel_name \<lparr>service = Service_init, data = JObj []\<rparr> = Inr JNull
   \<and> Channel_description \<lparr>service = Service_init, data = JObj []\<rparr> = Inr JNull
   \<and> Channel_id \<lparr>service = Service_init, data = JObj []\<rparr> = Inr JNull
   \<and> Channel_id \<lparr>service = Service_init, data = JObj [(''_id'', JObj [])]\<rparr> = Inr JNull"
  using channel_accessors_project [of Service_init
      "[(''_id'', JObj [(''$oid'', JStr ''1'')]), (''name'', JStr ''A''),
        (''description'', JStr ''d'')]" "[(''$oid'', JStr ''1'')]"]
    channel_accessors_project [of Service_init "[]" "[]"]
    channel_accessors_project [of Service_init "[(''_id'', JObj [])]" "[]"]
  by (simp add: example_Channel_def example_channel_def)

text \<open>
  The claim C9 as stated fails: an entry whose \<^verbatim>\<open>_id\<close> is present but is not a
  mapping makes \<^verbatim>\<open>id\<close> raise.
\<close>

theorem channel_id_raises_on_string_id:
  "Channel_id \<lparr>service = Service_init, data = JObj [(''_id'', JStr ''x'')]\<rparr>
     = Inl AttributeError"
  by (simp add: Channel_id_def py_get_def dict_get_def)

section \<open>Looking a channel up\<close>

text \<open>
  What \<^verbatim>\<open>next\<close> finds in the filtered sequence, in terms of what the generator
  yields when it is enumerated to its end.
\<close>

lemma next_first_match:
  assumes "exec net g w = (cs, w', r)"
    and "cs = pre @ c # post"
    and "\<forall>x\<in>set pre. \<exists>v. Channel_id x = Inr v \<and> \<not> eq v cid"
    and "\<exists>v. Channel_id c = Inr v \<and> eq v cid"
  shows "\<exists>w''. exec net (next_default (for_each g (\<lambda>channel.
            bind (lift (Channel_id channel)) (\<lambda>i.
              if eq i cid then Yield channel (Return ()) else Return ())))) w
           = ([], w'', Inr (Some c)) \<and> prefix (requests w'') (requests w')"
  using assms(1,2,3)
proof (induction g arbitrary: w cs pre)
  case (Return x)
  then show ?case by simp
next
  case (Raise x)
  then show ?case by simp
next
  case (Yield x g)
  from Yield.prems(1) obtain cs' where cs': "cs = x # cs'" "exec net g w = (cs', w', r)"
    by (auto split: prod.splits)
  show ?case
  proof (cases pre)
    case Nil
    with Yield.prems(2) cs' have "x = c" by simp
    moreover from assms(4) obtain v where "Channel_id c = Inr v" "eq v cid"
      by auto
    ultimately show ?thesis
      using exec_requests_grow [OF cs'(2)] by simp
  next
    case (Cons p pre')
    with Yield.prems(2) cs' have x: "x = p" "cs' = pre' @ c # post" by simp_all
    from Yield.prems(3) Cons x(1) obtain v where "Channel_id x = Inr v" "\<not> eq v cid"
      by auto
    moreover have "\<forall>x\<in>set pre'. \<exists>v. Channel_id x = Inr v \<and> \<not> eq v cid"
      using Yield.prems(3) Cons by simp
    ultimately show ?thesis
      using Yield.IH [OF cs'(2) x(2)] by simp
  qed
next
  case (Request u k)
  then show ?case by simp
next
  case (Log l g)
  then show ?case by simp
qed

lemma next_no_match:
  assumes "exec net g w = (cs, w', Inr ())"
    and "\<forall>x\<in>set cs. \<exists>v. Channel_id x = Inr v \<and> \<not> eq v cid"
  shows "exec net (next_default (for_each g (\<lambda>channel.
            bind (lift (Channel_id channel)) (\<lambda>i.
              if eq i cid then Yield channel (Return ()) else Return ())))) w
           = ([], w', Inr None)"
  using assms
proof (induction g arbitrary: w cs)
  case (Yield x g)
  from Yield.prems(1) obtain cs' where cs': "cs = x # cs'" "exec net g w = (cs', w', Inr ())"
    by (auto split: prod.splits)
  from Yield.prems(2) cs'(1) obtain v where "Channel_id x = Inr v" "\<not> eq v cid"
    by auto
  moreover have "\<forall>x\<in>set cs'. \<exists>v. Channel_id x = Inr v \<and> \<not> eq v cid"
    using Yield.prems(2) cs'(1) by simp
  ultimately show ?case
    using Yield.IH [OF cs'(2)] by simp
qed simp_all

text \<open>The runs over a given listing.\<close>

lemma example_run_listing:
  "exec (example_network_with (example_page example_text_one) t (JObj [(''channels'', JArr cs)]))
        (Service_channels example_loads fmt Service_init) \<lparr>requests = [], logged = []\<rparr>
     = (map (\<lambda>c. \<lparr>service = Service_init, data = c\<rparr>) cs,
        \<lparr>requests = [''https://www.accuradio.com'',
                      ''https://www.accuradio.com/c/m/json/genre/?param=p''],
         logged = []\<rparr>, Inr ())"
proof -
  let ?net = "example_network_with (example_page example_text_one) t
                (JObj [(''channels'', JArr cs)])"
  let ?w1 = "\<lparr>requests = [''https://www.accuradio.com''], logged = []\<rparr>"
  have root: "exec ?net (Service_channels example_loads fmt Service_init)
        \<lparr>requests = [], logged = []\<rparr>
      = exec ?net (for_each (brands_of_data (example_state [example_brand ''p'']))
          (channels_of_brand fmt Service_init)) ?w1"
    by (simp add: Service_channels_def Service_brands_def Service_data_def
        example_network_with_def Service_init_def example_page_one)
  have loop: "brands_of_data (example_state [example_brand ''p''])
      = for_list [example_brand ''p'']
          (\<lambda>brand. bind (lift (Brand_from brand)) (\<lambda>b. Yield b (Return ())))"
    by (simp add: example_state_def brands_of_data_entries)
  have body: "exec ?net (channels_of_brand fmt Service_init (example_Brand ''p'')) ?w1
      = (map (\<lambda>c. \<lparr>service = Service_init, data = c\<rparr>) cs,
         \<lparr>requests = [''https://www.accuradio.com'',
                       ''https://www.accuradio.com/c/m/json/genre/?param=p''],
          logged = []\<rparr>, Inr ())"
    by (simp add: channels_of_brand_def example_genre_url example_network_with_def py_get_def
        dict_get_def py_iter_def exec_for_list_yield)
  show ?thesis
    by (simp add: root loop Brand_from_example body exec_bind)
qed

lemma example_channel_named_id:
  "Channel_id \<lparr>service = self, data = example_channel_named oid n\<rparr> = Inr (JStr oid)"
  by (simp add: Channel_id_def example_channel_named_def py_get_def dict_get_def)

text \<open>
  C8, as amended.  Let the channel sequence, enumerated from the present state of the
  world, yield \<open>cs\<close>.  If \<open>c\<close> is the first channel of \<open>cs\<close> whose id equals the given
  identifier, and the id of every channel before it evaluates, \<^verbatim>\<open>get_channel_by_id\<close>
  run from the same state returns \<open>c\<close>, having issued no request that the enumeration
  does not issue.  If the enumeration ends normally, the id of every channel of \<open>cs\<close>
  evaluates and none equals the identifier, it returns \<^verbatim>\<open>None\<close>.
\<close>

theorem get_channel_by_id_first_match:
  assumes "exec net (Service_channels loads fmt self) w = (cs, w', r)"
  shows "(cs = pre @ c # post
            \<and> (\<forall>x\<in>set pre. \<exists>v. Channel_id x = Inr v \<and> \<not> eq v channel_id)
            \<and> (\<exists>v. Channel_id c = Inr v \<and> eq v channel_id) \<longrightarrow>
          (\<exists>w''. exec net (get_channel_by_id loads fmt eq self channel_id) w
                    = ([], w'', Inr (Some c))
                \<and> prefix (requests w'') (requests w')))
       \<and> (r = Inr ()
            \<and> (\<forall>x\<in>set cs. \<exists>v. Channel_id x = Inr v \<and> \<not> eq v channel_id) \<longrightarrow>
          exec net (get_channel_by_id loads fmt eq self channel_id) w = ([], w', Inr None))"
proof (intro conjI impI)
  assume a: "cs = pre @ c # post
            \<and> (\<forall>x\<in>set pre. \<exists>v. Channel_id x = Inr v \<and> \<not> eq v channel_id)
            \<and> (\<exists>v. Channel_id c = Inr v \<and> eq v channel_id)"
  show "\<exists>w''. exec net (get_channel_by_id loads fmt eq self channel_id) w
                    = ([], w'', Inr (Some c))
                \<and> prefix (requests w'') (requests w')"
    unfolding get_channel_by_id_def
    by (rule next_first_match [OF assms]) (use a in blast)+
next
  assume b: "r = Inr ()
            \<and> (\<forall>x\<in>set cs. \<exists>v. Channel_id x = Inr v \<and> \<not> eq v channel_id)"
  then have run: "exec net (Service_channels loads fmt self) w = (cs, w', Inr ())"
    using assms by simp
  show "exec net (get_channel_by_id loads fmt eq self channel_id) w = ([], w', Inr None)"
    unfolding get_channel_by_id_def
    by (rule next_no_match [OF run]) (use b in blast)
qed

theorem get_channel_by_id_first_match_witness:
  "exec (example_network_with (example_page example_text_one) example_listing_three_text
           example_listing_three)
        (Service_channels example_loads example_fmt Service_init)
        \<lparr>requests = [], logged = []\<rparr>
     = ([\<lparr>service = Service_init, data = example_channel_named ''0'' ''Z''\<rparr>,
         \<lparr>service = Service_init, data = example_channel_named ''1'' ''A''\<rparr>,
         \<lparr>service = Service_init, data = example_channel_named ''1'' ''B''\<rparr>],
        \<lparr>requests = [''https://www.accuradio.com'',
                      ''https://www.accuradio.com/c/m/json/genre/?param=p''],
         logged = []\<rparr>, Inr ())
   \<and> (\<exists>w''. exec (example_network_with (example_page example_text_one)
                   example_listing_three_text example_listing_three)
             (get_channel_by_id example_loads example_fmt str_eq Service_init ''1'')
             \<lparr>requests = [], logged = []\<rparr>
           = ([] :: unit list, w'',
              Inr (Some \<lparr>service = Service_init, data = example_channel_named ''1'' ''A''\<rparr>))
         \<and> prefix (requests w'')
             [''https://www.accuradio.com'',
              ''https://www.accuradio.com/c/m/json/genre/?param=p''])
   \<and> exec (example_network_with (example_page example_text_one) example_listing_three_text
           example_listing_three)
        (get_channel_by_id example_loads example_fmt str_eq Service_init ''missing'')
        \<lparr>requests = [], logged = []\<rparr>
       = ([] :: unit list,
          \<lparr>requests = [''https://www.accuradio.com'',
                        ''https://www.accuradio.com/c/m/json/genre/?param=p''],
           logged = []\<rparr>, Inr None)"
proof -
  let ?net = "example_network_with (example_page example_text_one) example_listing_three_text
                example_listing_three"
  let ?w = "\<lparr>requests = [], logged = []\<rparr>"
  let ?w' = "\<lparr>requests = [''https://www.accuradio.com'',
                ''https://www.accuradio.com/c/m/json/genre/?param=p''], logged = []\<rparr>"
  let ?z = "\<lparr>service = Service_init, data = example_channel_named ''0'' ''Z''\<rparr>"
  let ?a = "\<lparr>service = Service_init, data = example_channel_named ''1'' ''A''\<rparr>"
  let ?b = "\<lparr>service = Service_init, data = example_channel_named ''1'' ''B''\<rparr>"
  have run: "exec ?net (Service_channels example_loads example_fmt Service_init) ?w
               = ([?z, ?a, ?b], ?w', Inr ())"
    using example_run_listing [of example_listing_three_text
        "[example_channel_named ''0'' ''Z'', example_channel_named ''1'' ''A'',
          example_channel_named ''1'' ''B'']" example_fmt]
    by (simp add: example_listing_three_def)
  have first: "[?z, ?a, ?b] = [?z] @ ?a # [?b]
      \<and> (\<forall>x\<in>set [?z]. \<exists>v. Channel_id x = Inr v \<and> \<not> str_eq v ''1'')
      \<and> (\<exists>v. Channel_id ?a = Inr v \<and> str_eq v ''1'')"
    by (simp add: example_channel_named_id str_eq_def)
  have none: "Inr () = (Inr () :: error + unit)
      \<and> (\<forall>x\<in>set [?z, ?a, ?b]. \<exists>v. Channel_id x = Inr v \<and> \<not> str_eq v ''missing'')"
    by (simp add: example_channel_named_id str_eq_def)
  show ?thesis
    using run
      get_channel_by_id_first_match [where net = ?net and loads = example_loads
        and fmt = example_fmt and self = Service_init and w = ?w and cs = "[?z, ?a, ?b]"
        and w' = ?w' and r = "Inr ()" and pre = "[?z]" and c = ?a and post = "[?b]"
        and eq = str_eq and channel_id = "''1''", OF run, THEN conjunct1, rule_format, OF first]
      get_channel_by_id_first_match [where net = ?net and loads = example_loads
        and fmt = example_fmt and self = Service_init and w = ?w and cs = "[?z, ?a, ?b]"
        and w' = ?w' and r = "Inr ()" and eq = str_eq and channel_id = "''missing''",
        OF run, THEN conjunct2, rule_format, OF none]
    by simp
qed

text \<open>
  The claim C8 as stated fails: in the listing below the second channel has the id
  \<open>1\<close>, and the lookup of \<open>1\<close> raises, because the \<^verbatim>\<open>id\<close> of the channel before it
  cannot be evaluated.
\<close>

theorem get_channel_by_id_raises_on_earlier_id:
  "exec (example_network_with (example_page example_text_one) example_listing_str_id_text
           example_listing_str_id)
        (Service_channels example_loads example_fmt Service_init)
        \<lparr>requests = [], logged = []\<rparr>
     = ([\<lparr>service = Service_init, data = JObj [(''_id'', JStr ''x'')]\<rparr>,
         \<lparr>service = Service_init, data = example_channel_named ''1'' ''A''\<rparr>],
        \<lparr>requests = [''https://www.accuradio.com'',
                      ''https://www.accuradio.com/c/m/json/genre/?param=p''],
         logged = []\<rparr>, Inr ())
   \<and> Channel_id \<lparr>service = Service_init, data = example_channel_named ''1'' ''A''\<rparr>
       = Inr (JStr ''1'')
   \<and> str_eq (JStr ''1'') ''1''
   \<and> exec (example_network_with (example_page example_text_one) example_listing_str_id_text
           example_listing_str_id)
        (get_channel_by_id example_loads example_fmt str_eq Service_init ''1'')
        \<lparr>requests = [], logged = []\<rparr>
       = ([] :: unit list,
          \<lparr>requests = [''https://www.accuradio.com'',
                        ''https://www.accuradio.com/c/m/json/genre/?param=p''],
           logged = []\<rparr>, Inl AttributeError)"
proof -
  have run: "exec (example_network_with (example_page example_text_one)
           example_listing_str_id_text example_listing_str_id)
        (Service_channels example_loads example_fmt Service_init)
        \<lparr>requests = [], logged = []\<rparr>
     = ([\<lparr>service = Service_init, data = JObj [(''_id'', JStr ''x'')]\<rparr>,
         \<lparr>service = Service_init, data = example_channel_named ''1'' ''A''\<rparr>],
        \<lparr>requests = [''https://www.accuradio.com'',
                      ''https://www.accuradio.com/c/m/json/genre/?param=p''],
         logged = []\<rparr>, Inr ())"
    using example_run_listing [of example_listing_str_id_text
        "[JObj [(''_id'', JStr ''x'')], example_channel_named ''1'' ''A'']" example_fmt]
    by (simp add: example_listing_str_id_def)
  have lookup: "exec (example_network_with (example_page example_text_one)
           example_listing_str_id_text example_listing_str_id)
        (get_channel_by_id example_loads example_fmt str_eq Service_init ''1'')
        \<lparr>requests = [], logged = []\<rparr>
     = ([] :: unit list,
        \<lparr>requests = [''https://www.accuradio.com'',
                      ''https://www.accuradio.com/c/m/json/genre/?param=p''],
         logged = []\<rparr>, Inl AttributeError)"
    by (simp add: get_channel_by_id_def Service_channels_def Service_brands_def
        Service_data_def example_network_with_def example_url example_page_one
        example_state_def brands_of_data_entries Brand_from_example channels_of_brand_def
        example_genre_url example_listing_str_id_def py_get_def dict_get_def py_iter_def
        Channel_id_def)
  show ?thesis
    by (simp add: run lookup example_channel_named_id str_eq_def)
qed

end
